theory Spec2Isabelle
  imports Complex_Main "HOL-Library.Log_Nat"
begin

section \<open>Order placement of the restaurant management server\<close>

text \<open>
  This theory embeds the handler of \<^verbatim>\<open>POST /api/orders\<close> of \<^verbatim>\<open>server.js\<close> and the
  part of the relational store it talks to. The handler is a chain of awaited
  \<^verbatim>\<open>db.query\<close> calls inside \<^verbatim>\<open>db.beginTransaction\<close>; a rejected promise jumps to the
  \<^verbatim>\<open>catch\<close> block, which calls \<^verbatim>\<open>db.rollback\<close>. In the model every store call returns
  either an error message or its result together with the new session state, and the
  \<^verbatim>\<open>catch\<close> block is the \<open>Inl\<close> branch of the caller.
\<close>

subsection \<open>Numbers\<close>

text \<open>
  A number takes three forms on its way from the request to a table.
  \<^item> In the handler it is a JavaScript number, a double: \<^verbatim>\<open>express.json()\<close> reads a
    JSON number as the double nearest to it, the string mysql2 returns for a
    \<^verbatim>\<open>DECIMAL\<close> column becomes the nearest double when it is multiplied, and \<^verbatim>\<open>*\<close> gives
    the double nearest to the exact product (nearest with ties to even, 53 bits).
  \<^item> In a statement it is text: \<^verbatim>\<open>db.query\<close> writes a number parameter as
    \<^verbatim>\<open>val + ''\<close>, the decimal of fewest digits that reads back as the same double. The
    store reads this text as an exact decimal.
  \<^item> In a \<^verbatim>\<open>DECIMAL(10, 2)\<close> or \<^verbatim>\<open>INT\<close> column it is rounded to the scale of the column,
    half away from zero.
  All three are rationals here: a double is its exact value.

  JavaScript writes a number below \<open>10 ^ - 6\<close> or from \<open>10 ^ 21\<close> on with an exponent,
  and the store reads such text as a double again. At these magnitudes the columns
  and the comparisons of this schema give what they give for the exact decimal. A
  number beyond the range of doubles (\<^verbatim>\<open>Infinity\<close>) is not in the model: no statement
  can carry it and the store rejects the statement.
\<close>

type_synonym decimal = rat

definition pow :: "rat \<Rightarrow> int \<Rightarrow> rat" where
  "pow b e = (if 0 \<le> e then b ^ nat e else 1 / b ^ nat (- e))"

text \<open>The integer \<open>n\<close> with \<open>b ^ n \<le> x < b ^ (n + 1)\<close>, for a positive \<open>x\<close>.\<close>

definition floor_log :: "nat \<Rightarrow> rat \<Rightarrow> int" where
  "floor_log b x =
     (if 1 \<le> x then int (floorlog b (nat \<lfloor>x\<rfloor>)) - 1
      else - int (floorlog b (nat (\<lceil>1 / x\<rceil> - 1))))"

text \<open>Of \<open>n\<close> and \<open>n + 1\<close> the one nearest to \<open>y\<close>, the even one on a tie; \<open>n\<close> is \<open>\<lfloor>y\<rfloor>\<close>.\<close>

definition nearest_even :: "int \<Rightarrow> rat \<Rightarrow> int" where
  "nearest_even n y =
     (if y - of_int n < 1 / 2 then n
      else if 1 / 2 < y - of_int n then n + 1
      else if even n then n else n + 1)"

definition round_half_even :: "rat \<Rightarrow> int" where
  "round_half_even y = nearest_even \<lfloor>y\<rfloor> y"

definition multiple_of :: "rat \<Rightarrow> rat \<Rightarrow> rat" where
  "multiple_of ulp a = of_int (round_half_even (a / ulp)) * ulp"

text \<open>
  The double nearest to \<open>x\<close>. The doubles between \<open>2 ^ e\<close> and \<open>2 ^ (e + 1)\<close> are the
  multiples of \<open>2 ^ (e - 52)\<close>; below \<open>2 ^ - 1022\<close> they are the multiples of
  \<open>2 ^ - 1074\<close>.
\<close>

definition double :: "rat \<Rightarrow> rat" where
  "double x =
     (if x = 0 then 0
      else sgn x * multiple_of (pow 2 (max (floor_log 2 \<bar>x\<bar> - 52) (- 1074))) \<bar>x\<bar>)"

text \<open>
  \<^verbatim>\<open>Number::toString\<close> of a positive double \<open>v\<close>: with one digit, then two, and so on, the
  two decimals of that many digits around \<open>v\<close> are tried; the first that reads back as
  \<open>v\<close> is the text, the nearer one if both do. Seventeen digits tell any two doubles
  apart, so the first equation is not reached for a double.
\<close>

definition digits_below :: "rat \<Rightarrow> int \<Rightarrow> rat" where
  "digits_below v e = of_int \<lfloor>v / pow 10 e\<rfloor> * pow 10 e"

definition digits_above :: "rat \<Rightarrow> int \<Rightarrow> rat" where
  "digits_above v e = digits_below v e + pow 10 e"

definition nearer :: "rat \<Rightarrow> int \<Rightarrow> rat \<Rightarrow> rat \<Rightarrow> rat" where
  "nearer v e c c' =
     (if v - c < c' - v then c
      else if c' - v < v - c then c'
      else if even \<lfloor>c / pow 10 e\<rfloor> then c else c')"

fun shortest_digits :: "rat \<Rightarrow> int \<Rightarrow> nat \<Rightarrow> rat" where
  "shortest_digits v e 0 = v"
| "shortest_digits v e (Suc n) =
     (if double (digits_below v e) = v
      then (if double (digits_above v e) = v
            then nearer v e (digits_below v e) (digits_above v e)
            else digits_below v e)
      else if double (digits_above v e) = v then digits_above v e
      else shortest_digits v (e - 1) n)"

definition Number_toString :: "rat \<Rightarrow> decimal" where
  "Number_toString v =
     (if v = 0 then 0 else sgn v * shortest_digits \<bar>v\<bar> (floor_log 10 \<bar>v\<bar>) 17)"

text \<open>A number of the request body as a statement carries it.\<close>

definition sql_number :: "rat \<Rightarrow> decimal" where
  "sql_number x = Number_toString (double x)"

text \<open>
  \<^verbatim>\<open>mapping.quantity_required * item.quantity\<close> as the \<^verbatim>\<open>UPDATE\<close> carries it: the first
  factor is the string of a \<^verbatim>\<open>DECIMAL(10, 2)\<close> column, the second a number of the body.
\<close>

definition decrement_amount :: "decimal \<Rightarrow> rat \<Rightarrow> decimal" where
  "decrement_amount quantity_required q =
     Number_toString (double (double quantity_required * double q))"

text \<open>
  What a column holds of a value it is given, when the store accepts the statement.
  In its strict mode the store rejects a number beyond the range of the column and a
  string longer than the column; otherwise it stores the nearest bound, or the string
  cut to length.
\<close>

definition round_half_away :: "rat \<Rightarrow> int" where
  "round_half_away y = (if 0 \<le> y then \<lfloor>y + 1 / 2\<rfloor> else - \<lfloor>- y + 1 / 2\<rfloor>)"

definition DECIMAL_10_2 :: "decimal \<Rightarrow> decimal" where
  "DECIMAL_10_2 t =
     max (- 9999999999 / 100) (min (9999999999 / 100) (of_int (round_half_away (t * 100)) / 100))"

definition INT_column :: "decimal \<Rightarrow> int" where
  "INT_column t = max (- 2147483648) (min 2147483647 (round_half_away t))"

definition VARCHAR :: "nat \<Rightarrow> string \<Rightarrow> string" where
  "VARCHAR n s = take n s"

subsection \<open>Request\<close>

text \<open>
  One entry of \<^verbatim>\<open>req.body.items\<close>: the three fields the handler reads, as the JSON
  numbers of the body.
\<close>

record line_item =
  menu_item_id :: rat
  quantity :: rat
  price :: rat

text \<open>
  The request body. \<open>None\<close> is a field that is absent (or \<^verbatim>\<open>null\<close>); a field that is
  present has the JSON type the endpoint documents: a string for the names, the
  address and the payment method, a number for \<open>total_amount\<close>, an array of objects
  with three numbers for \<open>items\<close>. Bodies with values of other types are not in the
  model.
\<close>

record order_request =
  customer_name :: "string option"
  customer_phone :: "string option"
  customer_email :: "string option"
  items :: "line_item list option"
  total_amount :: "rat option"
  payment_method :: "string option"

subsection \<open>Tables\<close>

text \<open>
  The rows carry the columns the handler writes or reads, and the columns whose
  \<^verbatim>\<open>DEFAULT\<close> an inserted row takes. A column value is \<open>None\<close> for SQL \<^verbatim>\<open>NULL\<close>.
\<close>

datatype order_status = Pending | Preparing | Ready | Delivered | Cancelled

datatype payment_state = PaymentPending | PaymentCompleted | PaymentFailed

record orders_row =
  o_id :: nat
  o_customer_name :: "string option"
  o_customer_phone :: "string option"
  o_customer_email :: "string option"
  o_total_amount :: "decimal option"
  o_status :: order_status
  o_payment_status :: payment_state
  o_payment_method :: "string option"

record order_items_row =
  oi_order_id :: nat
  oi_menu_item_id :: int
  oi_quantity :: int
  oi_price :: decimal

record inventory_row =
  inv_id :: int
  inv_item_name :: string
  inv_quantity :: decimal

record payments_row =
  p_order_id :: nat
  p_amount :: "decimal option"
  p_payment_method :: "string option"
  p_status :: payment_state

record mapping_row =
  mim_menu_item_id :: int
  mim_inventory_item_id :: int
  mim_quantity_required :: decimal

record database =
  orders :: "orders_row list"
  order_items :: "order_items_row list"
  inventory :: "inventory_row list"
  payments :: "payments_row list"
  menu_inventory_mapping :: "mapping_row list"
  orders_auto_increment :: nat

subsection \<open>The connection\<close>

text \<open>
  What the store and the mail transport receive, in the order they receive it. A
  number in a statement is the text the statement carries.
\<close>

datatype statement =
    InsertOrder
  | InsertOrderItems nat
  | SelectMappings decimal
  | UpdateInventory int decimal
  | InsertPayment

datatype event =
    BeginTransaction
  | Query statement
  | Commit
  | Rollback
  | SendMail string nat

text \<open>
  The store may reject any call for reasons of its own: a lost connection, a
  deadlock, a broken foreign key and, in its strict mode, a value that does not fit
  its column. \<open>pending_faults\<close> is the answer of the store to the calls to come:
  \<open>Some msg\<close> is a call that fails with the error message \<open>msg\<close>, \<open>None\<close> (and the
  empty list) a call the store accepts.
\<close>

record session =
  work :: database
  pending_faults :: "string option list"
  calls :: "event list"

definition db_call :: "event \<Rightarrow> session \<Rightarrow> string option \<times> session" where
  "db_call ev s =
     (case pending_faults s of
        [] \<Rightarrow> (None, s\<lparr>calls := calls s @ [ev]\<rparr>)
      | f # fs \<Rightarrow> (f, s\<lparr>pending_faults := fs, calls := calls s @ [ev]\<rparr>))"

text \<open>
  \<^verbatim>\<open>db.rollback\<close> restores the rows of the snapshot taken by \<^verbatim>\<open>db.beginTransaction\<close>.
  The \<^verbatim>\<open>AUTO_INCREMENT\<close> counter of \<^verbatim>\<open>orders\<close> is not part of the transaction.
\<close>

definition rollback :: "database \<Rightarrow> database \<Rightarrow> database" where
  "rollback snapshot cur = snapshot\<lparr>orders_auto_increment := orders_auto_increment cur\<rparr>"

subsection \<open>Validators\<close>

text \<open>
  The chain of express-validator checks in front of the handler, on a body whose
  fields have their documented types. \<^verbatim>\<open>isEmail\<close> is the predicate of the validator
  library and a parameter of the model. \<^verbatim>\<open>isFloat({ min: 0 })\<close> reads the number back
  from its text.
\<close>

definition notEmpty_isString :: "string option \<Rightarrow> bool" where
  "notEmpty_isString v = (case v of None \<Rightarrow> False | Some s \<Rightarrow> s \<noteq> [])"

definition isEmail_optional :: "(string \<Rightarrow> bool) \<Rightarrow> string option \<Rightarrow> bool" where
  "isEmail_optional isEmail v = (case v of None \<Rightarrow> True | Some s \<Rightarrow> isEmail s)"

definition isFloat_min0 :: "rat option \<Rightarrow> bool" where
  "isFloat_min0 v = (case v of None \<Rightarrow> False | Some a \<Rightarrow> 0 \<le> double a)"

definition isArray_min1 :: "'a list option \<Rightarrow> bool" where
  "isArray_min1 v = (case v of None \<Rightarrow> False | Some xs \<Rightarrow> 1 \<le> length xs)"

definition validationResult :: "(string \<Rightarrow> bool) \<Rightarrow> order_request \<Rightarrow> bool" where
  "validationResult isEmail req \<longleftrightarrow>
     notEmpty_isString (customer_name req) \<and>
     notEmpty_isString (customer_phone req) \<and>
     isEmail_optional isEmail (customer_email req) \<and>
     isFloat_min0 (total_amount req) \<and>
     isArray_min1 (items req)"

subsection \<open>The statements of the transaction\<close>

text \<open>
  The row of \<^verbatim>\<open>INSERT INTO orders\<close>: five parameters, and the two statuses from their
  \<^verbatim>\<open>DEFAULT 'pending'\<close>.
\<close>

definition new_order :: "nat \<Rightarrow> order_request \<Rightarrow> orders_row" where
  "new_order orderId req =
     \<lparr>o_id = orderId,
      o_customer_name = map_option (VARCHAR 100) (customer_name req),
      o_customer_phone = map_option (VARCHAR 20) (customer_phone req),
      o_customer_email = map_option (VARCHAR 100) (customer_email req),
      o_total_amount = map_option (\<lambda>a. DECIMAL_10_2 (sql_number a)) (total_amount req),
      o_status = Pending,
      o_payment_status = PaymentPending,
      o_payment_method = map_option (VARCHAR 50) (payment_method req)\<rparr>"

definition insert_order :: "order_request \<Rightarrow> session \<Rightarrow> (string + nat) \<times> session" where
  "insert_order req s =
     (case db_call (Query InsertOrder) s of
        (Some msg, s1) \<Rightarrow> (Inl msg, s1)
      | (None, s1) \<Rightarrow>
          (let d = work s1; orderId = orders_auto_increment d
           in (Inr orderId,
               s1\<lparr>work := d\<lparr>orders := orders d @ [new_order orderId req],
                              orders_auto_increment := Suc orderId\<rparr>\<rparr>)))"

text \<open>
  \<^verbatim>\<open>items.map(item => [orderId, item.menu_item_id, item.quantity, item.price])\<close>, as
  the columns of \<^verbatim>\<open>order_items\<close> hold it.
\<close>

definition itemsData :: "nat \<Rightarrow> line_item list \<Rightarrow> order_items_row list" where
  "itemsData orderId its =
     map (\<lambda>item. \<lparr>oi_order_id = orderId,
                    oi_menu_item_id = INT_column (sql_number (menu_item_id item)),
                    oi_quantity = INT_column (sql_number (quantity item)),
                    oi_price = DECIMAL_10_2 (sql_number (price item))\<rparr>) its"

definition insert_order_items :: "nat \<Rightarrow> line_item list \<Rightarrow> session \<Rightarrow> (string + unit) \<times> session" where
  "insert_order_items orderId its s =
     (case db_call (Query (InsertOrderItems (length its))) s of
        (Some msg, s1) \<Rightarrow> (Inl msg, s1)
      | (None, s1) \<Rightarrow>
          (let d = work s1
           in (Inr (), s1\<lparr>work := d\<lparr>order_items := order_items d @ itemsData orderId its\<rparr>\<rparr>)))"

text \<open>
  \<^verbatim>\<open>SELECT ... FROM menu_inventory_mapping WHERE menu_item_id = ?\<close>, with the text of
  \<^verbatim>\<open>item.menu_item_id\<close> for the parameter.
\<close>

definition select_mappings :: "decimal \<Rightarrow> session \<Rightarrow> (string + mapping_row list) \<times> session" where
  "select_mappings mid s =
     (case db_call (Query (SelectMappings mid)) s of
        (Some msg, s1) \<Rightarrow> (Inl msg, s1)
      | (None, s1) \<Rightarrow>
          (Inr (filter (\<lambda>m. of_int (mim_menu_item_id m) = mid)
                  (menu_inventory_mapping (work s1))), s1))"

text \<open>
  \<^verbatim>\<open>UPDATE inventory SET quantity = quantity - ? WHERE id = ? AND quantity >= ?\<close>:
  the rows it changes, and the number of rows its \<^verbatim>\<open>WHERE\<close> clause matches (mysql2
  connects with \<^verbatim>\<open>FOUND_ROWS\<close>, so \<^verbatim>\<open>affectedRows\<close> counts the rows matched). The
  difference is exact and goes into the \<^verbatim>\<open>DECIMAL(10, 2)\<close> column.
\<close>

definition update_matches :: "decimal \<Rightarrow> int \<Rightarrow> inventory_row \<Rightarrow> bool" where
  "update_matches amount iid r \<longleftrightarrow> inv_id r = iid \<and> amount \<le> inv_quantity r"

definition update_rows :: "decimal \<Rightarrow> int \<Rightarrow> inventory_row list \<Rightarrow> inventory_row list" where
  "update_rows amount iid rows =
     map (\<lambda>r. if update_matches amount iid r
               then r\<lparr>inv_quantity := DECIMAL_10_2 (inv_quantity r - amount)\<rparr> else r) rows"

definition affectedRows :: "decimal \<Rightarrow> int \<Rightarrow> inventory_row list \<Rightarrow> nat" where
  "affectedRows amount iid rows = length (filter (update_matches amount iid) rows)"

definition update_inventory :: "decimal \<Rightarrow> int \<Rightarrow> session \<Rightarrow> (string + unit) \<times> session" where
  "update_inventory amount iid s =
     (case db_call (Query (UpdateInventory iid amount)) s of
        (Some msg, s1) \<Rightarrow> (Inl ''Insufficient inventory'', s1)
      | (None, s1) \<Rightarrow>
          (let d = work s1
           in if affectedRows amount iid (inventory d) = 0
              then (Inl ''Insufficient inventory'', s1)
              else (Inr (), s1\<lparr>work := d\<lparr>inventory := update_rows amount iid (inventory d)\<rparr>\<rparr>)))"

text \<open>The inner loop \<^verbatim>\<open>for (const mapping of mappings)\<close>.\<close>

fun deduct_mappings :: "line_item \<Rightarrow> mapping_row list \<Rightarrow> session \<Rightarrow> (string + unit) \<times> session" where
  "deduct_mappings item [] s = (Inr (), s)"
| "deduct_mappings item (mapping # rest) s =
     (case update_inventory (decrement_amount (mim_quantity_required mapping) (quantity item))
             (mim_inventory_item_id mapping) s of
        (Inl e, s1) \<Rightarrow> (Inl e, s1)
      | (Inr _, s1) \<Rightarrow> deduct_mappings item rest s1)"

text \<open>The outer loop \<^verbatim>\<open>for (const item of items)\<close>.\<close>

fun deduct_items :: "line_item list \<Rightarrow> session \<Rightarrow> (string + unit) \<times> session" where
  "deduct_items [] s = (Inr (), s)"
| "deduct_items (item # rest) s =
     (case select_mappings (sql_number (menu_item_id item)) s of
        (Inl e, s1) \<Rightarrow> (Inl e, s1)
      | (Inr mappings, s1) \<Rightarrow>
          (case deduct_mappings item mappings s1 of
             (Inl e, s2) \<Rightarrow> (Inl e, s2)
           | (Inr _, s2) \<Rightarrow> deduct_items rest s2))"

text \<open>
  The row of \<^verbatim>\<open>INSERT INTO payments\<close>. The column \<^verbatim>\<open>payment_method\<close> is \<^verbatim>\<open>NOT NULL\<close>:
  for a request without \<open>payment_method\<close> the parameter is \<^verbatim>\<open>NULL\<close> and the store
  rejects the statement, whatever its mode.
\<close>

definition new_payment :: "nat \<Rightarrow> order_request \<Rightarrow> payments_row" where
  "new_payment orderId req =
     \<lparr>p_order_id = orderId,
      p_amount = map_option (\<lambda>a. DECIMAL_10_2 (sql_number a)) (total_amount req),
      p_payment_method = map_option (VARCHAR 50) (payment_method req),
      p_status = PaymentPending\<rparr>"

definition insert_payment :: "nat \<Rightarrow> order_request \<Rightarrow> session \<Rightarrow> (string + unit) \<times> session" where
  "insert_payment orderId req s =
     (case db_call (Query InsertPayment) s of
        (Some msg, s1) \<Rightarrow> (Inl msg, s1)
      | (None, s1) \<Rightarrow>
          (if payment_method req = None
           then (Inl ''Column 'payment_method' cannot be null'', s1)
           else (let d = work s1
                 in (Inr (), s1\<lparr>work := d\<lparr>payments := payments d @ [new_payment orderId req]\<rparr>\<rparr>))))"

text \<open>
  \<^verbatim>\<open>sendEmail\<close> catches the error of the transport itself, so it never throws: all the
  handler sees of it is that it was called. \<^verbatim>\<open>if (customer_email)\<close> is false for an
  absent address and for the empty string.
\<close>

definition sendEmail :: "string \<Rightarrow> nat \<Rightarrow> session \<Rightarrow> session" where
  "sendEmail to orderId s = s\<lparr>calls := calls s @ [SendMail to orderId]\<rparr>"

definition notify :: "string option \<Rightarrow> nat \<Rightarrow> session \<Rightarrow> session" where
  "notify email orderId s =
     (case email of
        None \<Rightarrow> s
      | Some to \<Rightarrow> if to = [] then s else sendEmail to orderId s)"

subsection \<open>The handler\<close>

text \<open>The \<^verbatim>\<open>try\<close> block up to, and without, \<^verbatim>\<open>db.commit\<close>.\<close>

definition try_block :: "order_request \<Rightarrow> line_item list \<Rightarrow> session \<Rightarrow> (string + nat) \<times> session" where
  "try_block req its s =
     (case insert_order req s of
        (Inl e, s1) \<Rightarrow> (Inl e, s1)
      | (Inr orderId, s1) \<Rightarrow>
          (case insert_order_items orderId its s1 of
             (Inl e, s2) \<Rightarrow> (Inl e, s2)
           | (Inr _, s2) \<Rightarrow>
               (case deduct_items its s2 of
                  (Inl e, s3) \<Rightarrow> (Inl e, s3)
                | (Inr _, s3) \<Rightarrow>
                    (case insert_payment orderId req s3 of
                       (Inl e, s4) \<Rightarrow> (Inl e, s4)
                     | (Inr _, s4) \<Rightarrow> (Inr orderId, notify (customer_email req) orderId s4)))))"

datatype response = Created nat | BadRequest string | ServerError string

record outcome =
  reply :: response
  stored :: database
  received :: "event list"

definition items_of :: "order_request \<Rightarrow> line_item list" where
  "items_of req = (case items req of None \<Rightarrow> [] | Some its \<Rightarrow> its)"

definition post_api_orders ::
  "(string \<Rightarrow> bool) \<Rightarrow> string option list \<Rightarrow> database \<Rightarrow> order_request \<Rightarrow> outcome" where
  "post_api_orders isEmail faults db req =
     (if \<not> validationResult isEmail req
      then \<lparr>reply = BadRequest ''Invalid value'', stored = db, received = []\<rparr>
      else
        (case db_call BeginTransaction \<lparr>work = db, pending_faults = faults, calls = []\<rparr> of
           (Some err, s0) \<Rightarrow>
             \<lparr>reply = ServerError ''Transaction failed'', stored = db, received = calls s0\<rparr>
         | (None, s0) \<Rightarrow>
             (case try_block req (items_of req) s0 of
                (Inl message, s1) \<Rightarrow>
                  (let (_, s2) = db_call Rollback s1
                   in \<lparr>reply = ServerError (if message = [] then ''Failed to create order'' else message),
                       stored = rollback db (work s2), received = calls s2\<rparr>)
              | (Inr orderId, s1) \<Rightarrow>
                  (case db_call Commit s1 of
                     (Some err, s2) \<Rightarrow>
                       (let (_, s3) = db_call Rollback s2
                        in \<lparr>reply = ServerError ''Transaction commit failed'',
                            stored = rollback db (work s3), received = calls s3\<rparr>)
                   | (None, s2) \<Rightarrow>
                       \<lparr>reply = Created orderId, stored = work s2, received = calls s2\<rparr>))))"

subsection \<open>The decrements of a request\<close>

text \<open>
  The inventory step seen from the store: every requested line asks, for each of its
  mapping rows, for a decrement of the mapped inventory item by the amount the
  \<^verbatim>\<open>UPDATE\<close> carries; the decrements are met one after the other in the order of the
  request, each conditioned on the current quantity, and the first one that affects
  no row ends the step. The loops of the handler are compared with this below.
\<close>

definition required_decrements :: "mapping_row list \<Rightarrow> line_item list \<Rightarrow> (int \<times> decimal) list" where
  "required_decrements mappings its =
     concat (map (\<lambda>item.
        map (\<lambda>m. (mim_inventory_item_id m,
                   decrement_amount (mim_quantity_required m) (quantity item)))
          (filter (\<lambda>m. of_int (mim_menu_item_id m) = sql_number (menu_item_id item)) mappings)) its)"

fun conditional_decrement :: "inventory_row list \<Rightarrow> int \<times> decimal \<Rightarrow> inventory_row list option" where
  "conditional_decrement rows (iid, amount) =
     (if filter (\<lambda>r. inv_id r = iid \<and> amount \<le> inv_quantity r) rows = [] then None
      else Some (map (\<lambda>r. if inv_id r = iid \<and> amount \<le> inv_quantity r
                           then r\<lparr>inv_quantity := DECIMAL_10_2 (inv_quantity r - amount)\<rparr>
                           else r) rows))"

fun deduct_in_order :: "inventory_row list \<Rightarrow> (int \<times> decimal) list \<Rightarrow> inventory_row list option" where
  "deduct_in_order rows [] = Some rows"
| "deduct_in_order rows (d # ds) =
     (case conditional_decrement rows d of
        None \<Rightarrow> None
      | Some rows' \<Rightarrow> deduct_in_order rows' ds)"

text \<open>The decrements that are attempted: all up to the first that fails, and that one.\<close>

fun attempted_decrements :: "inventory_row list \<Rightarrow> (int \<times> decimal) list \<Rightarrow> (int \<times> decimal) list" where
  "attempted_decrements rows [] = []"
| "attempted_decrements rows (d # ds) =
     d # (case conditional_decrement rows d of
            None \<Rightarrow> []
          | Some rows' \<Rightarrow> attempted_decrements rows' ds)"

text \<open>The decrement that could not be met, if there is one.\<close>

fun first_exhausted :: "inventory_row list \<Rightarrow> (int \<times> decimal) list \<Rightarrow> (int \<times> decimal) option" where
  "first_exhausted rows [] = None"
| "first_exhausted rows (d # ds) =
     (case conditional_decrement rows d of
        None \<Rightarrow> Some d
      | Some rows' \<Rightarrow> first_exhausted rows' ds)"

text \<open>The inventory updates among the calls the store received.\<close>

fun updates_in :: "event list \<Rightarrow> (int \<times> decimal) list" where
  "updates_in [] = []"
| "updates_in (Query (UpdateInventory iid amount) # evs) = (iid, amount) # updates_in evs"
| "updates_in (ev # evs) = updates_in evs"

text \<open>What the loops return when the store accepts every call.\<close>

definition loop_meets :: "(string + unit) \<times> session \<Rightarrow> session \<Rightarrow> (int \<times> decimal) list \<Rightarrow> bool" where
  "loop_meets res s ds \<longleftrightarrow>
     pending_faults (snd res) = [] \<and>
     updates_in (calls (snd res)) =
       updates_in (calls s) @ attempted_decrements (inventory (work s)) ds \<and>
     (case deduct_in_order (inventory (work s)) ds of
        None \<Rightarrow> fst res = Inl ''Insufficient inventory''
      | Some rows' \<Rightarrow> fst res = Inr () \<and> work (snd res) = (work s)\<lparr>inventory := rows'\<rparr>)"

subsection \<open>Observations on the tables\<close>

definition same_rows :: "database \<Rightarrow> database \<Rightarrow> bool" where
  "same_rows d d' \<longleftrightarrow>
     orders d' = orders d \<and> order_items d' = order_items d \<and>
     payments d' = payments d \<and> inventory d' = inventory d \<and>
     menu_inventory_mapping d' = menu_inventory_mapping d"

definition stock_non_negative :: "inventory_row list \<Rightarrow> bool" where
  "stock_non_negative rows = list_all (\<lambda>r. 0 \<le> inv_quantity r) rows"






text \<open>
  The contract of one entry of \<open>items\<close> in the words of the specification: a positive
  integer quantity and a unit price that is not negative.
\<close>

definition line_item_contract :: "line_item \<Rightarrow> bool" where
  "line_item_contract item \<longleftrightarrow>
     0 < quantity item \<and> of_int \<lfloor>quantity item\<rfloor> = quantity item \<and> 0 \<le> price item"

text \<open>Everything but the inventory is the same: what the deduction loop may change.\<close>

definition same_but_inventory :: "database \<Rightarrow> database \<Rightarrow> bool" where
  "same_but_inventory d d' \<longleftrightarrow>
     orders d' = orders d \<and> order_items d' = order_items d \<and> payments d' = payments d \<and>
     menu_inventory_mapping d' = menu_inventory_mapping d \<and>
     orders_auto_increment d' = orders_auto_increment d"

text \<open>A reply with status 400 or 500.\<close>

definition is_error :: "response \<Rightarrow> bool" where
  "is_error r = (case r of Created _ \<Rightarrow> False | BadRequest _ \<Rightarrow> True | ServerError _ \<Rightarrow> True)"

subsection \<open>Sample data\<close>

text \<open>
  The inventory and the mappings \<^verbatim>\<open>insertSampleData\<close> of the setup script inserts, and
  the request of the specification's scenario.
\<close>

definition sample_db :: database where
  "sample_db =
     \<lparr>orders = [], order_items = [],
      inventory =
        [\<lparr>inv_id = 1, inv_item_name = ''Flour'', inv_quantity = 50\<rparr>,
         \<lparr>inv_id = 2, inv_item_name = ''Mozzarella Cheese'', inv_quantity = 20\<rparr>,
         \<lparr>inv_id = 3, inv_item_name = ''Tomato'', inv_quantity = 30\<rparr>,
         \<lparr>inv_id = 4, inv_item_name = ''Romaine Lettuce'', inv_quantity = 15\<rparr>,
         \<lparr>inv_id = 5, inv_item_name = ''Chocolate'', inv_quantity = 10\<rparr>,
         \<lparr>inv_id = 6, inv_item_name = ''Mango Pulp'', inv_quantity = 25\<rparr>],
      payments = [],
      menu_inventory_mapping =
        [\<lparr>mim_menu_item_id = 1, mim_inventory_item_id = 1, mim_quantity_required = 2 / 10\<rparr>,
         \<lparr>mim_menu_item_id = 1, mim_inventory_item_id = 2, mim_quantity_required = 1 / 10\<rparr>,
         \<lparr>mim_menu_item_id = 1, mim_inventory_item_id = 3, mim_quantity_required = 1 / 10\<rparr>,
         \<lparr>mim_menu_item_id = 2, mim_inventory_item_id = 4, mim_quantity_required = 2 / 10\<rparr>,
         \<lparr>mim_menu_item_id = 3, mim_inventory_item_id = 5, mim_quantity_required = 1 / 10\<rparr>,
         \<lparr>mim_menu_item_id = 4, mim_inventory_item_id = 6, mim_quantity_required = 3 / 10\<rparr>],
      orders_auto_increment = 1\<rparr>"

definition sample_request :: order_request where
  "sample_request =
     \<lparr>customer_name = Some ''A'', customer_phone = Some ''123'',
      customer_email = Some ''a@example.com'',
      items = Some [\<lparr>menu_item_id = 1, quantity = 2, price = 250\<rparr>],
      total_amount = Some 500, payment_method = Some ''cash''\<rparr>"

text \<open>A stand-in for the library's \<^verbatim>\<open>isEmail\<close> on the sample data.\<close>

definition sample_isEmail :: "string \<Rightarrow> bool" where
  "sample_isEmail s \<longleftrightarrow> CHR ''@'' \<in> set s"

text \<open>Flour is down to 0.3 kg; two pizzas need 0.4 kg.\<close>

definition low_flour_db :: database where
  "low_flour_db = sample_db\<lparr>inventory :=
     [\<lparr>inv_id = 1, inv_item_name = ''Flour'', inv_quantity = 3 / 10\<rparr>,
      \<lparr>inv_id = 2, inv_item_name = ''Mozzarella Cheese'', inv_quantity = 20\<rparr>,
      \<lparr>inv_id = 3, inv_item_name = ''Tomato'', inv_quantity = 30\<rparr>]\<rparr>"

text \<open>Flour suffices, mozzarella is down to 0.1 kg; two pizzas need 0.2 kg.\<close>

definition low_cheese_db :: database where
  "low_cheese_db = sample_db\<lparr>inventory :=
     [\<lparr>inv_id = 1, inv_item_name = ''Flour'', inv_quantity = 50\<rparr>,
      \<lparr>inv_id = 2, inv_item_name = ''Mozzarella Cheese'', inv_quantity = 1 / 10\<rparr>,
      \<lparr>inv_id = 3, inv_item_name = ''Tomato'', inv_quantity = 30\<rparr>]\<rparr>"

text \<open>
  Chocolate is down to 0.30 kg, and three lava cakes at 0.10 kg each are ordered:
  the stock is exactly what the order requires.
\<close>

definition last_chocolate_db :: database where
  "last_chocolate_db = sample_db\<lparr>inventory :=
     [\<lparr>inv_id = 5, inv_item_name = ''Chocolate'', inv_quantity = 3 / 10\<rparr>]\<rparr>"

definition three_cakes_request :: order_request where
  "three_cakes_request =
     sample_request\<lparr>items := Some [\<lparr>menu_item_id = 3, quantity = 3, price = 120\<rparr>],
                    total_amount := Some 360\<rparr>"

text \<open>The sample request with a negative unit price.\<close>

definition negative_price_request :: order_request where
  "negative_price_request =
     sample_request\<lparr>items := Some [\<lparr>menu_item_id = 1, quantity = 2, price = - 250\<rparr>]\<rparr>"

text \<open>The sample request with a negative quantity.\<close>

definition negative_quantity_request :: order_request where
  "negative_quantity_request =
     sample_request\<lparr>items := Some [\<lparr>menu_item_id = 1, quantity = - 2, price = 250\<rparr>]\<rparr>"

text \<open>The sample request with a total that is not the sum of its lines.\<close>

definition underpaid_request :: order_request where
  "underpaid_request = sample_request\<lparr>total_amount := Some 1\<rparr>"

text \<open>Two pizzas at 0.125 each, and their exact total.\<close>

definition eighth_price_request :: order_request where
  "eighth_price_request =
     sample_request\<lparr>items := Some [\<lparr>menu_item_id = 1, quantity = 2, price = 1 / 8\<rparr>],
                    total_amount := Some (1 / 4)\<rparr>"

text \<open>The store accepts the eight calls before \<^verbatim>\<open>db.commit\<close> and rejects the commit.\<close>

definition commit_fails :: "string option list" where
  "commit_fails = [None, None, None, None, None, None, None, None, Some ''commit error'']"


section \<open>Properties\<close>

subsection \<open>Evaluating numbers\<close>

text \<open>
  The simplifier computes the functions on numbers from their definitions. The
  numbers of the sample data are computed once, here.
\<close>

lemma floor_rat_numeral_div:
  "\<lfloor>numeral a / numeral b :: rat\<rfloor> = numeral a div numeral b"
  using floor_divide_of_int_eq [of "numeral a" "numeral b", where ?'a = rat] by simp

lemma ceiling_rat_numeral_div:
  "\<lceil>numeral a / numeral b :: rat\<rceil> = - (- numeral a div numeral b)"
  using ceiling_divide_eq_div [of "numeral a" "numeral b"]
  by (simp add: ceiling_def
        floor_divide_of_int_eq [of "- numeral a" "numeral b", where ?'a = rat, simplified])

lemma shortest_digits_numeral:
  "shortest_digits v e (numeral k) =
     (if double (digits_below v e) = v
      then (if double (digits_above v e) = v
            then nearer v e (digits_below v e) (digits_above v e)
            else digits_below v e)
      else if double (digits_above v e) = v then digits_above v e
      else shortest_digits v (e - 1) (pred_numeral k))"
  by (simp add: numeral_eq_Suc)

lemmas number_eval = pow_def floor_log_def nearest_even_def round_half_even_def multiple_of_def
  double_def compute_floorlog floor_rat_numeral_div ceiling_rat_numeral_div
  digits_below_def digits_above_def nearer_def shortest_digits_numeral
  Number_toString_def sql_number_def decrement_amount_def

lemmas column_eval = round_half_away_def DECIMAL_10_2_def INT_column_def VARCHAR_def
  floor_rat_numeral_div

lemma sql_number_samples:
  "sql_number 1 = 1"
  "sql_number 2 = 2"
  "sql_number 3 = 3"
  "sql_number 120 = 120"
  "sql_number 250 = 250"
  "sql_number 360 = 360"
  "sql_number 500 = 500"
  "sql_number (- 250) = - 250"
  "sql_number (- 2) = - 2"
  "sql_number (1 / 8) = 1 / 8"
  "sql_number (1 / 4) = 1 / 4"
  by (simp_all add: number_eval)

lemma double_samples:
  "double 1 = 1"
  "double 360 = 360"
  "double 500 = 500"
  "double (1 / 4) = 1 / 4"
  by (simp_all add: number_eval)

lemma decrement_amount_samples:
  "decrement_amount (1 / 5) 2 = 2 / 5"
  "decrement_amount (1 / 10) 2 = 1 / 5"
  "decrement_amount (1 / 5) (- 2) = - 2 / 5"
  "decrement_amount (1 / 10) (- 2) = - 1 / 5"
  by (simp_all add: number_eval)

text \<open>
  In doubles \<^verbatim>\<open>0.1 * 3\<close> is \<^verbatim>\<open>0.30000000000000004\<close>, \<^verbatim>\<open>0.57 * 100\<close> is
  \<^verbatim>\<open>56.99999999999999\<close>, and \<^verbatim>\<open>9007199254740993\<close> is read as \<^verbatim>\<open>9007199254740992\<close>.
\<close>

lemma decrement_amount_three_tenths:
  "decrement_amount (1 / 10) 3 = 30000000000000004 / 10 ^ 17"
  by (simp add: number_eval)

lemma decrement_amount_fifty_seven:
  "decrement_amount (57 / 100) 100 = 5699999999999999 / 10 ^ 14"
  by (simp add: number_eval)

lemma sql_number_beyond_53_bits:
  "sql_number 9007199254740993 = 9007199254740992"
  by (simp add: number_eval)

lemmas handler_eval = post_api_orders_def validationResult_def notEmpty_isString_def
  isEmail_optional_def isFloat_min0_def isArray_min1_def db_call_def rollback_def try_block_def
  insert_order_def new_order_def insert_order_items_def itemsData_def items_of_def
  select_mappings_def update_inventory_def affectedRows_def update_matches_def update_rows_def
  insert_payment_def new_payment_def notify_def sendEmail_def Let_def
  column_eval sql_number_samples double_samples decrement_amount_samples
  decrement_amount_three_tenths

lemmas sample_data = sample_db_def sample_request_def sample_isEmail_def low_flour_db_def
  low_cheese_db_def last_chocolate_db_def three_cakes_request_def negative_price_request_def
  underpaid_request_def eighth_price_request_def negative_quantity_request_def
  commit_fails_def

subsection \<open>Store calls\<close>

lemma db_call_work: "work (snd (db_call ev s)) = work s"
  by (simp add: db_call_def split: list.splits)

lemma db_call_calls: "calls (snd (db_call ev s)) = calls s @ [ev]"
  by (simp add: db_call_def split: list.splits)

lemma db_call_no_faults:
  "pending_faults s = [] \<Longrightarrow> db_call ev s = (None, s\<lparr>calls := calls s @ [ev]\<rparr>)"
  by (simp add: db_call_def)

lemma db_call_cases:
  "db_call ev s = (r, s') \<Longrightarrow> work s' = work s \<and> calls s' = calls s @ [ev]"
  by (auto simp: db_call_def split: list.splits)

subsection \<open>The deduction loop changes the inventory only\<close>

lemma update_inventory_frame:
  "update_inventory a i s = (r, s') \<Longrightarrow> same_but_inventory (work s) (work s')"
  by (auto simp: update_inventory_def same_but_inventory_def Let_def
        split: prod.splits option.splits if_splits dest: db_call_cases)

lemma deduct_mappings_frame:
  "deduct_mappings item ms s = (r, s') \<Longrightarrow> same_but_inventory (work s) (work s')"
proof (induction ms arbitrary: s)
  case Nil
  then show ?case by (simp add: same_but_inventory_def)
next
  case (Cons m ms)
  show ?case
  proof (cases "update_inventory (decrement_amount (mim_quantity_required m) (quantity item)) (mim_inventory_item_id m) s")
    case (Pair res s1)
    note f1 = update_inventory_frame [OF Pair]
    show ?thesis
    proof (cases res)
      case (Inl e)
      with Pair Cons.prems f1 show ?thesis by simp
    next
      case (Inr u)
      with Pair Cons.prems have "deduct_mappings item ms s1 = (r, s')" by simp
      from Cons.IH [OF this] f1 show ?thesis by (simp add: same_but_inventory_def)
    qed
  qed
qed

lemma select_mappings_cases:
  "select_mappings mid s = (r, s') \<Longrightarrow> work s' = work s"
  by (auto simp: select_mappings_def split: prod.splits option.splits dest: db_call_cases)

lemma deduct_items_frame:
  "deduct_items its s = (r, s') \<Longrightarrow> same_but_inventory (work s) (work s')"
proof (induction its arbitrary: s)
  case Nil
  then show ?case by (simp add: same_but_inventory_def)
next
  case (Cons item its)
  show ?case
  proof (cases "select_mappings (sql_number (menu_item_id item)) s")
    case (Pair res s1)
    note w1 = select_mappings_cases [OF Pair]
    show ?thesis
    proof (cases res)
      case (Inl e)
      with Pair Cons.prems w1 show ?thesis by (simp add: same_but_inventory_def)
    next
      case (Inr ms)
      show ?thesis
      proof (cases "deduct_mappings item ms s1")
        case (Pair res2 s2)
        note f2 = deduct_mappings_frame [OF Pair]
        show ?thesis
        proof (cases res2)
          case (Inl e)
          with Pair Inr \<open>select_mappings (sql_number (menu_item_id item)) s = (res, s1)\<close> Cons.prems f2 w1
          show ?thesis by simp
        next
          case (Inr u)
          with Pair \<open>res = Inr ms\<close> \<open>select_mappings (sql_number (menu_item_id item)) s = (res, s1)\<close> Cons.prems
          have "deduct_items its s2 = (r, s')" by simp
          from Cons.IH [OF this] f2 w1 show ?thesis by (simp add: same_but_inventory_def)
        qed
      qed
    qed
  qed
qed

subsection \<open>The conditional update keeps the stock non-negative\<close>

lemma DECIMAL_10_2_non_negative: "0 \<le> x \<Longrightarrow> 0 \<le> DECIMAL_10_2 x"
  by (simp add: DECIMAL_10_2_def round_half_away_def le_max_iff_disj)

lemma update_rows_non_negative:
  "stock_non_negative rows \<Longrightarrow> stock_non_negative (update_rows a i rows)"
  by (induction rows)
     (auto simp: stock_non_negative_def update_rows_def update_matches_def
        intro: DECIMAL_10_2_non_negative)

lemma update_inventory_non_negative:
  "update_inventory a i s = (r, s') \<Longrightarrow> stock_non_negative (inventory (work s)) \<Longrightarrow>
   stock_non_negative (inventory (work s'))"
  by (auto simp: update_inventory_def Let_def update_rows_non_negative
        split: prod.splits option.splits if_splits dest: db_call_cases)

lemma deduct_mappings_non_negative:
  "deduct_mappings item ms s = (r, s') \<Longrightarrow> stock_non_negative (inventory (work s)) \<Longrightarrow>
   stock_non_negative (inventory (work s'))"
proof (induction ms arbitrary: s)
  case Nil
  then show ?case by simp
next
  case (Cons m ms)
  then show ?case
    by (auto split: prod.splits sum.splits dest: update_inventory_non_negative)
qed

lemma deduct_items_Cons_cases:
  assumes "deduct_items (item # its) s = (r, s')"
  obtains (select_failed) e where "select_mappings (sql_number (menu_item_id item)) s = (Inl e, s')" "r = Inl e"
  | (update_failed) ms s1 e where "select_mappings (sql_number (menu_item_id item)) s = (Inr ms, s1)"
      "deduct_mappings item ms s1 = (Inl e, s')" "r = Inl e"
  | (continued) ms s1 s2 where "select_mappings (sql_number (menu_item_id item)) s = (Inr ms, s1)"
      "deduct_mappings item ms s1 = (Inr (), s2)" "deduct_items its s2 = (r, s')"
  using assms by (auto split: prod.splits sum.splits)

lemma deduct_items_non_negative:
  "deduct_items its s = (r, s') \<Longrightarrow> stock_non_negative (inventory (work s)) \<Longrightarrow>
   stock_non_negative (inventory (work s'))"
proof (induction its arbitrary: s)
  case Nil
  then show ?case by simp
next
  case (Cons item its)
  from Cons.prems(1) show ?case
  proof (cases rule: deduct_items_Cons_cases)
    case (select_failed e)
    with Cons.prems(2) show ?thesis
      by (simp add: select_mappings_cases)
  next
    case (update_failed ms s1 e)
    from update_failed(1) Cons.prems(2) have "stock_non_negative (inventory (work s1))"
      by (simp add: select_mappings_cases)
    with update_failed(2) show ?thesis
      by (rule deduct_mappings_non_negative)
  next
    case (continued ms s1 s2)
    from continued(1) Cons.prems(2) have "stock_non_negative (inventory (work s1))"
      by (simp add: select_mappings_cases)
    with continued(2) have "stock_non_negative (inventory (work s2))"
      by (rule deduct_mappings_non_negative)
    with continued(3) show ?thesis
      by (rule Cons.IH)
  qed
qed

subsection \<open>The statements of a placement that succeeds\<close>

lemma insert_order_cases:
  assumes "insert_order req s = (r, s')"
  obtains (failed) e where "r = Inl e" "work s' = work s"
  | (inserted) "r = Inr (orders_auto_increment (work s))"
      "work s' = (work s)\<lparr>orders := orders (work s) @
          [new_order (orders_auto_increment (work s)) req],
          orders_auto_increment := Suc (orders_auto_increment (work s))\<rparr>"
  using assms
  by (auto simp: insert_order_def Let_def split: prod.splits option.splits dest: db_call_cases)

lemma insert_order_items_cases:
  assumes "insert_order_items oid its s = (r, s')"
  obtains (failed) e where "r = Inl e" "work s' = work s"
  | (inserted) "r = Inr ()"
      "work s' = (work s)\<lparr>order_items := order_items (work s) @ itemsData oid its\<rparr>"
  using assms
  by (auto simp: insert_order_items_def Let_def split: prod.splits option.splits dest: db_call_cases)

lemma insert_payment_cases:
  assumes "insert_payment oid req s = (r, s')"
  obtains (failed) e where "r = Inl e" "work s' = work s"
  | (inserted) "r = Inr ()"
      "work s' = (work s)\<lparr>payments := payments (work s) @
         [new_payment oid req]\<rparr>"
  using assms
  by (auto simp: insert_payment_def Let_def split: prod.splits option.splits if_splits
        dest: db_call_cases)

lemma notify_work: "work (notify email oid s) = work s"
  by (simp add: notify_def sendEmail_def split: option.splits)

lemma try_block_Inr:
  assumes "try_block req its s = (Inr oid, s')"
  obtains s2 s3 where
    "oid = orders_auto_increment (work s)"
    "work s2 = (work s)\<lparr>orders := orders (work s) @
          [new_order oid req],
          orders_auto_increment := Suc oid,
          order_items := order_items (work s) @ itemsData oid its\<rparr>"
    "deduct_items its s2 = (Inr (), s3)"
    "work s' = (work s3)\<lparr>payments := payments (work s3) @
         [new_payment oid req]\<rparr>"
proof -
  from assms obtain s1 where 1: "insert_order req s = (Inr oid, s1)"
    by (auto simp: try_block_def split: prod.splits sum.splits)
  with assms obtain s2 where 2: "insert_order_items oid its s1 = (Inr (), s2)"
    by (auto simp: try_block_def split: prod.splits sum.splits)
  with 1 assms obtain s3 where 3: "deduct_items its s2 = (Inr (), s3)"
    by (auto simp: try_block_def split: prod.splits sum.splits)
  with 1 2 assms obtain s4 where 4: "insert_payment oid req s3 = (Inr (), s4)"
    and 5: "s' = notify (customer_email req) oid s4"
    by (auto simp: try_block_def split: prod.splits sum.splits)
  from 1 have a: "oid = orders_auto_increment (work s)" and
    b: "work s1 = (work s)\<lparr>orders := orders (work s) @
          [new_order oid req],
          orders_auto_increment := Suc oid\<rparr>"
    by (auto elim!: insert_order_cases)
  from 2 have c: "work s2 = (work s1)\<lparr>order_items := order_items (work s1) @ itemsData oid its\<rparr>"
    by (auto elim!: insert_order_items_cases)
  from 4 5 have d: "work s' = (work s3)\<lparr>payments := payments (work s3) @
         [new_payment oid req]\<rparr>"
    by (auto elim!: insert_payment_cases simp: notify_work)
  from b c have e: "work s2 = (work s)\<lparr>orders := orders (work s) @
          [new_order oid req],
          orders_auto_increment := Suc oid,
          order_items := order_items (work s) @ itemsData oid its\<rparr>"
    by simp
  from a e 3 d show ?thesis by (rule that)
qed

lemma created_cases:
  assumes "reply (post_api_orders isEmail faults db req) = Created oid"
  obtains s0 s1 where "validationResult isEmail req"
    "work s0 = db"
    "try_block req (items_of req) s0 = (Inr oid, s1)"
    "stored (post_api_orders isEmail faults db req) = work s1"
proof -
  obtain r0 s0 where b: "db_call BeginTransaction \<lparr>work = db, pending_faults = faults, calls = []\<rparr> = (r0, s0)"
    by (cases "db_call BeginTransaction \<lparr>work = db, pending_faults = faults, calls = []\<rparr>")
  then have w0: "work s0 = db" by (auto dest: db_call_cases)
  obtain r1 s1 where t: "try_block req (items_of req) s0 = (r1, s1)"
    by (cases "try_block req (items_of req) s0")
  obtain r2 s2 where c: "db_call Commit s1 = (r2, s2)"
    by (cases "db_call Commit s1")
  then have w2: "work s2 = work s1" by (auto dest: db_call_cases)
  from assms b t c have v: "validationResult isEmail req" and "r1 = Inr oid"
    and "stored (post_api_orders isEmail faults db req) = work s2"
    by (auto simp: post_api_orders_def Let_def split: if_splits option.splits sum.splits prod.splits)
  with w0 w2 t show ?thesis by (auto intro: that)
qed

lemma error_same_rows:
  assumes "is_error (reply (post_api_orders isEmail faults db req))"
  shows "same_rows db (stored (post_api_orders isEmail faults db req))"
proof -
  obtain r0 s0 where b: "db_call BeginTransaction \<lparr>work = db, pending_faults = faults, calls = []\<rparr> = (r0, s0)"
    by (cases "db_call BeginTransaction \<lparr>work = db, pending_faults = faults, calls = []\<rparr>")
  obtain r1 s1 where t: "try_block req (items_of req) s0 = (r1, s1)"
    by (cases "try_block req (items_of req) s0")
  obtain r2 s2 where c: "db_call Commit s1 = (r2, s2)"
    by (cases "db_call Commit s1")
  from assms b t c show ?thesis
    by (auto simp: post_api_orders_def Let_def same_rows_def rollback_def is_error_def
          split: if_splits option.splits sum.splits prod.splits)
qed

lemma reply_cases:
  obtains (created) oid where "reply (post_api_orders isEmail faults db req) = Created oid"
  | (error) "is_error (reply (post_api_orders isEmail faults db req))"
  by (cases "reply (post_api_orders isEmail faults db req)") (auto simp: is_error_def)

subsection \<open>The loops against the decrements of the request\<close>

lemma update_matches_eq:
  "update_matches a i = (\<lambda>r. inv_id r = i \<and> a \<le> inv_quantity r)"
  by (simp add: fun_eq_iff update_matches_def)

lemma conditional_decrement_update:
  "conditional_decrement rows (i, a) =
     (if affectedRows a i rows = 0 then None else Some (update_rows a i rows))"
  by (simp add: affectedRows_def update_rows_def update_matches_eq)

declare conditional_decrement.simps [simp del]

lemma deduct_in_order_append:
  "deduct_in_order rows (xs @ ys) =
     (case deduct_in_order rows xs of None \<Rightarrow> None | Some rows' \<Rightarrow> deduct_in_order rows' ys)"
  by (induction xs arbitrary: rows) (auto split: option.splits)

lemma attempted_decrements_append:
  "attempted_decrements rows (xs @ ys) =
     (case deduct_in_order rows xs of
        None \<Rightarrow> attempted_decrements rows xs
      | Some rows' \<Rightarrow> attempted_decrements rows xs @ attempted_decrements rows' ys)"
  by (induction xs arbitrary: rows) (auto split: option.splits)

lemma updates_in_append: "updates_in (xs @ ys) = updates_in xs @ updates_in ys"
  by (induction xs rule: updates_in.induct) auto

lemma required_decrements_Cons:
  "required_decrements mappings (item # its) =
     map (\<lambda>m. (mim_inventory_item_id m, decrement_amount (mim_quantity_required m) (quantity item)))
       (filter (\<lambda>m. of_int (mim_menu_item_id m) = sql_number (menu_item_id item)) mappings)
     @ required_decrements mappings its"
  by (simp add: required_decrements_def)

lemma update_inventory_Inr:
  assumes "update_inventory a i s = (Inr u, s')"
  shows "conditional_decrement (inventory (work s)) (i, a) = Some (inventory (work s'))"
    and "same_but_inventory (work s) (work s')"
  using assms update_inventory_frame [OF assms]
  by (auto simp: update_inventory_def Let_def conditional_decrement_update
      split: prod.splits option.splits if_splits dest: db_call_cases)

lemma deduct_mappings_Inr:
  "deduct_mappings item ms s = (Inr u, s') \<Longrightarrow>
   deduct_in_order (inventory (work s))
     (map (\<lambda>m. (mim_inventory_item_id m, decrement_amount (mim_quantity_required m) (quantity item))) ms)
     = Some (inventory (work s'))"
proof (induction ms arbitrary: s)
  case Nil
  then show ?case by simp
next
  case (Cons m ms)
  from Cons.prems obtain s1 where
    1: "update_inventory (decrement_amount (mim_quantity_required m) (quantity item)) (mim_inventory_item_id m) s = (Inr (), s1)"
    and 2: "deduct_mappings item ms s1 = (Inr u, s')"
    by (auto split: prod.splits sum.splits)
  from update_inventory_Inr(1) [OF 1] Cons.IH [OF 2] show ?case
    by simp
qed

lemma deduct_items_Inr:
  "deduct_items its s = (Inr u, s') \<Longrightarrow>
   deduct_in_order (inventory (work s))
     (required_decrements (menu_inventory_mapping (work s)) its) = Some (inventory (work s'))"
proof (induction its arbitrary: s)
  case Nil
  then show ?case by (simp add: required_decrements_def)
next
  case (Cons item its)
  from Cons.prems show ?case
  proof (cases rule: deduct_items_Cons_cases)
    case (continued ms s1 s2)
    from continued(1) have w1: "work s1 = work s"
      and ms: "ms = filter (\<lambda>m. of_int (mim_menu_item_id m) = sql_number (menu_item_id item)) (menu_inventory_mapping (work s))"
      by (auto simp: select_mappings_def split: prod.splits option.splits dest: db_call_cases)
    from deduct_mappings_Inr [OF continued(2)] w1
    have inner: "deduct_in_order (inventory (work s))
       (map (\<lambda>m. (mim_inventory_item_id m, decrement_amount (mim_quantity_required m) (quantity item))) ms)
       = Some (inventory (work s2))"
      by simp
    from deduct_mappings_frame [OF continued(2)] w1
    have "menu_inventory_mapping (work s2) = menu_inventory_mapping (work s)"
      by (simp add: same_but_inventory_def)
    with Cons.IH [OF continued(3)]
    have "deduct_in_order (inventory (work s2))
        (required_decrements (menu_inventory_mapping (work s)) its) = Some (inventory (work s'))"
      by simp
    with inner ms show ?thesis
      by (simp add: required_decrements_Cons deduct_in_order_append)
  qed simp_all
qed

subsection \<open>A store that accepts every call\<close>

lemma update_inventory_no_faults:
  assumes "pending_faults s = []"
  shows "update_inventory a i s =
     (case conditional_decrement (inventory (work s)) (i, a) of
        None \<Rightarrow> (Inl ''Insufficient inventory'', s\<lparr>calls := calls s @ [Query (UpdateInventory i a)]\<rparr>)
      | Some rows' \<Rightarrow> (Inr (), s\<lparr>calls := calls s @ [Query (UpdateInventory i a)],
                                 work := (work s)\<lparr>inventory := rows'\<rparr>\<rparr>))"
  using assms
  by (simp add: update_inventory_def db_call_no_faults conditional_decrement_update Let_def)

lemma select_mappings_no_faults:
  assumes "pending_faults s = []"
  shows "select_mappings mid s =
     (Inr (filter (\<lambda>m. of_int (mim_menu_item_id m) = mid) (menu_inventory_mapping (work s))),
      s\<lparr>calls := calls s @ [Query (SelectMappings mid)]\<rparr>)"
  using assms by (simp add: select_mappings_def db_call_no_faults)

lemma deduct_mappings_no_faults:
  "pending_faults s = [] \<Longrightarrow>
   loop_meets (deduct_mappings item ms s) s
     (map (\<lambda>m. (mim_inventory_item_id m, decrement_amount (mim_quantity_required m) (quantity item))) ms)"
proof (induction ms arbitrary: s)
  case Nil
  then show ?case by (simp add: loop_meets_def)
next
  case (Cons m ms)
  let ?i = "mim_inventory_item_id m" and ?a = "decrement_amount (mim_quantity_required m) (quantity item)"
  show ?case
  proof (cases "conditional_decrement (inventory (work s)) (?i, ?a)")
    case None
    with Cons.prems show ?thesis
      by (simp add: loop_meets_def update_inventory_no_faults updates_in_append del: conditional_decrement.simps)
  next
    case (Some rows')
    let ?s1 = "s\<lparr>calls := calls s @ [Query (UpdateInventory ?i ?a)], work := (work s)\<lparr>inventory := rows'\<rparr>\<rparr>"
    from Cons.prems have "pending_faults ?s1 = []" by simp
    from Cons.IH [OF this] Some Cons.prems show ?thesis
      by (simp add: loop_meets_def update_inventory_no_faults updates_in_append
          del: conditional_decrement.simps split: option.splits)
  qed
qed

lemma deduct_items_no_faults:
  "pending_faults s = [] \<Longrightarrow>
   loop_meets (deduct_items its s) s (required_decrements (menu_inventory_mapping (work s)) its)"
proof (induction its arbitrary: s)
  case Nil
  then show ?case by (simp add: loop_meets_def required_decrements_def)
next
  case (Cons item its)
  let ?ms = "filter (\<lambda>m. of_int (mim_menu_item_id m) = sql_number (menu_item_id item)) (menu_inventory_mapping (work s))"
  let ?ds = "map (\<lambda>m. (mim_inventory_item_id m, decrement_amount (mim_quantity_required m) (quantity item))) ?ms"
  let ?s1 = "s\<lparr>calls := calls s @ [Query (SelectMappings (sql_number (menu_item_id item)))]\<rparr>"
  from Cons.prems have f1: "pending_faults ?s1 = []" by simp
  have sel: "select_mappings (sql_number (menu_item_id item)) s = (Inr ?ms, ?s1)"
    using Cons.prems by (rule select_mappings_no_faults)
  obtain r2 s2 where inner: "deduct_mappings item ?ms ?s1 = (r2, s2)"
    by (cases "deduct_mappings item ?ms ?s1")
  from deduct_mappings_no_faults [OF f1, of item ?ms] inner
  have m: "loop_meets (r2, s2) ?s1 ?ds" by simp
  show ?case
  proof (cases "deduct_in_order (inventory (work s)) ?ds")
    case None
    with m sel inner show ?thesis
      by (simp add: loop_meets_def required_decrements_Cons deduct_in_order_append
          attempted_decrements_append updates_in_append)
  next
    case (Some rows')
    with m have r2: "r2 = Inr ()" and w2: "work s2 = (work s)\<lparr>inventory := rows'\<rparr>"
      and f2: "pending_faults s2 = []"
      and u2: "updates_in (calls s2) = updates_in (calls s) @ attempted_decrements (inventory (work s)) ?ds"
      by (simp_all add: loop_meets_def updates_in_append)
    from Cons.IH [OF f2] w2
    have "loop_meets (deduct_items its s2) s2 (required_decrements (menu_inventory_mapping (work s)) its)"
      by simp
    with Some r2 w2 u2 sel inner show ?thesis
      by (simp add: loop_meets_def required_decrements_Cons deduct_in_order_append
          attempted_decrements_append split: option.splits)
  qed
qed


lemma first_exhausted_deduct_in_order:
  "first_exhausted rows ds = None \<longleftrightarrow> deduct_in_order rows ds \<noteq> None"
  by (induction ds arbitrary: rows) (auto split: option.splits)

lemma try_block_Inr_inventory:
  assumes "try_block req its s = (Inr oid, s')"
  obtains s2 s3 where
    "inventory (work s2) = inventory (work s)"
    "menu_inventory_mapping (work s2) = menu_inventory_mapping (work s)"
    "deduct_items its s2 = (Inr (), s3)"
    "inventory (work s') = inventory (work s3)"
proof (rule try_block_Inr [OF assms])
  fix s2 s3
  assume "work s2 = (work s)\<lparr>orders := orders (work s) @
          [new_order oid req],
          orders_auto_increment := Suc oid,
          order_items := order_items (work s) @ itemsData oid its\<rparr>"
    and "deduct_items its s2 = (Inr (), s3)"
    and "work s' = (work s3)\<lparr>payments := payments (work s3) @
         [new_payment oid req]\<rparr>"
  then show thesis
    by (intro that [of s2 s3]) simp_all
qed

lemma try_block_no_faults_insufficient:
  assumes "pending_faults s = []"
    and "deduct_in_order (inventory (work s)) (required_decrements (menu_inventory_mapping (work s)) its) = None"
  shows "fst (try_block req its s) = Inl ''Insufficient inventory''"
proof -
  let ?oid = "orders_auto_increment (work s)"
  obtain s1 where 1: "insert_order req s = (Inr ?oid, s1)" and f1: "pending_faults s1 = []"
    and i1: "inventory (work s1) = inventory (work s)"
    and m1: "menu_inventory_mapping (work s1) = menu_inventory_mapping (work s)"
    using assms(1) by (simp add: insert_order_def db_call_no_faults Let_def)
  obtain s2 where 2: "insert_order_items ?oid its s1 = (Inr (), s2)" and f2: "pending_faults s2 = []"
    and i2: "inventory (work s2) = inventory (work s1)"
    and m2: "menu_inventory_mapping (work s2) = menu_inventory_mapping (work s1)"
    using f1 by (simp add: insert_order_items_def db_call_no_faults Let_def)
  from deduct_items_no_faults [OF f2, of its] assms(2) i1 i2 m1 m2
  have "fst (deduct_items its s2) = Inl ''Insufficient inventory''"
    by (simp add: loop_meets_def)
  then obtain s3 where "deduct_items its s2 = (Inl ''Insufficient inventory'', s3)"
    by (cases "deduct_items its s2") simp
  with 1 2 show ?thesis
    by (simp add: try_block_def)
qed

lemma post_api_orders_no_faults_insufficient:
  assumes "validationResult isEmail req"
    and "deduct_in_order (inventory db) (required_decrements (menu_inventory_mapping db) (items_of req)) = None"
  shows "reply (post_api_orders isEmail [] db req) = ServerError ''Insufficient inventory''"
proof -
  let ?s0 = "\<lparr>work = db, pending_faults = [], calls = [BeginTransaction]\<rparr>"
  have b: "db_call BeginTransaction \<lparr>work = db, pending_faults = [], calls = []\<rparr> = (None, ?s0)"
    by (simp add: db_call_def)
  have "fst (try_block req (items_of req) ?s0) = Inl ''Insufficient inventory''"
    using assms(2) by (intro try_block_no_faults_insufficient) simp_all
  then obtain s1 where t: "try_block req (items_of req) ?s0 = (Inl ''Insufficient inventory'', s1)"
    by (cases "try_block req (items_of req) ?s0") simp
  from assms(1) b t show ?thesis
    by (simp add: post_api_orders_def Let_def split: prod.splits)
qed

lemma created_deduct_in_order:
  assumes "reply (post_api_orders isEmail faults db req) = Created oid"
  shows "deduct_in_order (inventory db) (required_decrements (menu_inventory_mapping db) (items_of req))
           = Some (inventory (stored (post_api_orders isEmail faults db req)))"
proof -
  from assms obtain s0 s1 where w0: "work s0 = db"
    and t: "try_block req (items_of req) s0 = (Inr oid, s1)"
    and st: "stored (post_api_orders isEmail faults db req) = work s1"
    by (rule created_cases)
  from t obtain s2 s3 where
    w2: "inventory (work s2) = inventory (work s0)" "menu_inventory_mapping (work s2) = menu_inventory_mapping (work s0)"
    and d: "deduct_items (items_of req) s2 = (Inr (), s3)"
    and w1: "inventory (work s1) = inventory (work s3)"
    by (rule try_block_Inr_inventory)
  from deduct_items_Inr [OF d] w2 w0 w1 st show ?thesis by simp
qed

subsection \<open>The rows of a placement that succeeds\<close>




lemma created_rows:
  assumes "reply (post_api_orders isEmail faults db req) = Created oid"
  shows "oid = orders_auto_increment db"
    and "orders (stored (post_api_orders isEmail faults db req)) = orders db @
          [new_order oid req]"
    and "order_items (stored (post_api_orders isEmail faults db req)) =
          order_items db @ itemsData oid (items_of req)"
    and "payments (stored (post_api_orders isEmail faults db req)) = payments db @
         [new_payment oid req]"
proof -
  from assms obtain s0 s1 where w0: "work s0 = db"
    and t: "try_block req (items_of req) s0 = (Inr oid, s1)"
    and st: "stored (post_api_orders isEmail faults db req) = work s1"
    by (rule created_cases)
  from t obtain s2 s3 where o: "oid = orders_auto_increment (work s0)"
    and w2: "work s2 = (work s0)\<lparr>orders := orders (work s0) @
          [new_order oid req],
          orders_auto_increment := Suc oid,
          order_items := order_items (work s0) @ itemsData oid (items_of req)\<rparr>"
    and d: "deduct_items (items_of req) s2 = (Inr (), s3)"
    and w1: "work s1 = (work s3)\<lparr>payments := payments (work s3) @
         [new_payment oid req]\<rparr>"
    by (rule try_block_Inr)
  note f = deduct_items_frame [OF d, unfolded same_but_inventory_def]
  from o w0 show "oid = orders_auto_increment db" by simp
  from f w2 w1 w0 st show "orders (stored (post_api_orders isEmail faults db req)) = orders db @
          [new_order oid req]"
    by simp
  from f w2 w1 w0 st show "order_items (stored (post_api_orders isEmail faults db req)) =
          order_items db @ itemsData oid (items_of req)"
    by simp
  from f w2 w1 w0 st show "payments (stored (post_api_orders isEmail faults db req)) = payments db @
         [new_payment oid req]"
    by simp
qed

lemmas decrements_eval = required_decrements_def items_of_def conditional_decrement.simps
  column_eval sql_number_samples decrement_amount_samples decrement_amount_three_tenths

subsection \<open>A line with a negative quantity\<close>

text \<open>
  The sample request for \<open>- 2\<close> pizzas is placed, and the conditional updates raise
  the stock of flour, mozzarella and tomato.
\<close>

lemma negative_quantity_raises_stock:
  "reply (post_api_orders sample_isEmail [] sample_db negative_quantity_request) = Created 1"
  "map inv_quantity
     (inventory (stored (post_api_orders sample_isEmail [] sample_db negative_quantity_request)))
     = [252 / 5, 101 / 5, 151 / 5, 15, 10, 25]"
  by (simp_all add: handler_eval sample_data)

section \<open>Order placement against its specification\<close>

text \<open>
  C1. Whatever the store answers: when one of the required decrements cannot be met,
  the reply is an error, and with every error reply the rows of \<open>orders\<close>,
  \<open>order_items\<close>, \<open>payments\<close> and \<open>inventory\<close> are what they were before the request.
\<close>

theorem failed_placement_rolls_back:
  "(deduct_in_order (inventory db)
       (required_decrements (menu_inventory_mapping db) (items_of req)) = None \<longrightarrow>
      is_error (reply (post_api_orders isEmail faults db req))) \<and>
   (is_error (reply (post_api_orders isEmail faults db req)) \<longrightarrow>
      same_rows db (stored (post_api_orders isEmail faults db req)))"
proof (intro conjI impI)
  assume n: "deduct_in_order (inventory db)
       (required_decrements (menu_inventory_mapping db) (items_of req)) = None"
  show "is_error (reply (post_api_orders isEmail faults db req))"
  proof (cases rule: reply_cases [of isEmail faults db req])
    case (created oid)
    from created_deduct_in_order [OF created] n show ?thesis by simp
  next
    case error
    then show ?thesis .
  qed
next
  assume "is_error (reply (post_api_orders isEmail faults db req))"
  then show "same_rows db (stored (post_api_orders isEmail faults db req))"
    by (rule error_same_rows)
qed

theorem failed_placement_rolls_back_witness:
  "deduct_in_order (inventory low_flour_db)
       (required_decrements (menu_inventory_mapping low_flour_db) (items_of sample_request)) = None \<and>
   is_error (reply (post_api_orders sample_isEmail [] low_flour_db sample_request)) \<and>
   same_rows low_flour_db (stored (post_api_orders sample_isEmail [] low_flour_db sample_request))"
proof -
  have h: "deduct_in_order (inventory low_flour_db)
       (required_decrements (menu_inventory_mapping low_flour_db) (items_of sample_request)) = None"
    by (simp add: decrements_eval sample_data)
  with failed_placement_rolls_back [of low_flour_db sample_request sample_isEmail "[]"]
  show ?thesis by blast
qed

text \<open>
  C2. Whatever the request and whatever the store answers, a stock without negative
  quantities has no negative quantity after the placement.
\<close>

theorem stock_never_negative:
  "stock_non_negative (inventory db) \<Longrightarrow>
   stock_non_negative (inventory (stored (post_api_orders isEmail faults db req)))"
proof -
  assume nn: "stock_non_negative (inventory db)"
  show ?thesis
  proof (cases rule: reply_cases [of isEmail faults db req])
    case (created oid)
    then obtain s0 s1 where w0: "work s0 = db"
      and t: "try_block req (items_of req) s0 = (Inr oid, s1)"
      and st: "stored (post_api_orders isEmail faults db req) = work s1"
      by (rule created_cases)
    from t obtain s2 s3 where
      w2: "inventory (work s2) = inventory (work s0)"
      and d: "deduct_items (items_of req) s2 = (Inr (), s3)"
      and w1: "inventory (work s1) = inventory (work s3)"
      by (rule try_block_Inr_inventory)
    from nn w0 w2 have "stock_non_negative (inventory (work s2))" by simp
    with d have "stock_non_negative (inventory (work s3))"
      by (rule deduct_items_non_negative)
    with w1 st show ?thesis by simp
  next
    case error
    from error_same_rows [OF error] nn show ?thesis
      by (simp add: same_rows_def)
  qed
qed

theorem stock_never_negative_witness:
  "stock_non_negative (inventory sample_db) \<and>
   stock_non_negative (inventory (stored (post_api_orders sample_isEmail [] sample_db sample_request)))"
proof -
  have h: "stock_non_negative (inventory sample_db)"
    by (simp add: stock_non_negative_def sample_data)
  from h stock_never_negative [OF h, of sample_isEmail "[]" sample_request] show ?thesis
    by simp
qed

text \<open>
  C3. The handler multiplies in doubles. With 0.30 kg of chocolate in stock, three
  lava cakes at 0.10 kg each require exactly the stock; the handler asks for a
  decrement by 0.30000000000000004, the conditional update matches no row, and the
  order is refused with \<open>Insufficient inventory\<close> and rolled back.
\<close>

theorem exact_stock_refused:
  "post_api_orders sample_isEmail [] last_chocolate_db three_cakes_request =
     \<lparr>reply = ServerError ''Insufficient inventory'',
      stored = last_chocolate_db\<lparr>orders_auto_increment := 2\<rparr>,
      received =
        [BeginTransaction, Query InsertOrder, Query (InsertOrderItems 1),
         Query (SelectMappings 3),
         Query (UpdateInventory 5 (30000000000000004 / 10 ^ 17)), Rollback]\<rparr>"
  by (simp add: handler_eval sample_data)

text \<open>
  C4. The validators ask nothing of the entries of \<open>items\<close>. The sample request with
  the unit price \<open>- 250\<close> breaks the contract of an entry; it passes validation, the
  store is called, and the order is created with that price.
\<close>

theorem negative_price_accepted:
  "\<not> list_all line_item_contract (items_of negative_price_request) \<and>
   reply (post_api_orders sample_isEmail [] sample_db negative_price_request) = Created 1 \<and>
   order_items (stored (post_api_orders sample_isEmail [] sample_db negative_price_request)) =
     [\<lparr>oi_order_id = 1, oi_menu_item_id = 1, oi_quantity = 2, oi_price = - 250\<rparr>] \<and>
   received (post_api_orders sample_isEmail [] sample_db negative_price_request) =
     [BeginTransaction, Query InsertOrder, Query (InsertOrderItems 1),
      Query (SelectMappings 1), Query (UpdateInventory 1 (2 / 5)),
      Query (UpdateInventory 2 (1 / 5)), Query (UpdateInventory 3 (1 / 5)),
      Query InsertPayment, SendMail ''a@example.com'' 1, Commit]"
  by (simp add: handler_eval sample_data line_item_contract_def)

text \<open>
  C5. The handler calls \<^verbatim>\<open>sendEmail\<close> before \<^verbatim>\<open>db.commit\<close>. On the sample request, with
  a store that accepts every statement and rejects the commit, the confirmation mail
  goes out, then the commit fails, the transaction is rolled back and the reply is the
  500 error: a notification was attempted for a transaction that was rolled back.
\<close>

theorem mail_sent_before_failed_commit:
  "post_api_orders sample_isEmail commit_fails sample_db sample_request =
     \<lparr>reply = ServerError ''Transaction commit failed'',
      stored = sample_db\<lparr>orders_auto_increment := 2\<rparr>,
      received =
        [BeginTransaction, Query InsertOrder, Query (InsertOrderItems 1),
         Query (SelectMappings 1), Query (UpdateInventory 1 (2 / 5)),
         Query (UpdateInventory 2 (1 / 5)), Query (UpdateInventory 3 (1 / 5)),
         Query InsertPayment, SendMail ''a@example.com'' 1, Commit, Rollback]\<rparr>"
  by (simp add: handler_eval sample_data)




text \<open>
  C7, as the claim states it, fails: the price of a row is the price of the line as
  the \<^verbatim>\<open>DECIMAL(10, 2)\<close> column holds it. The sample request with the unit price 0.125
  is placed, and its row has the price 0.13.
\<close>

theorem row_price_rounded_counterexample:
  "\<not> (reply (post_api_orders sample_isEmail [] sample_db eighth_price_request) = Created 1 \<longrightarrow>
        map oi_price
          (order_items (stored (post_api_orders sample_isEmail [] sample_db eighth_price_request)))
          = map price (items_of eighth_price_request))"
  by (simp add: handler_eval sample_data)

text \<open>
  C7, as the code has it. A placement that succeeds adds to \<open>orders\<close> one row with
  status \<open>pending\<close> and payment status \<open>pending\<close>, to \<open>order_items\<close> one row for each
  requested line, in the order of the request, and to \<open>payments\<close> one row for the order
  with status \<open>pending\<close>. The price and the quantity of a row are those of the line,
  and the amount of the payment is the \<open>total_amount\<close> of the request, as the text of
  the statement carries them and the column holds them: a price and an amount are
  rounded to two decimals. The handler reads no menu price.
\<close>

theorem successful_placement_rows:
  "reply (post_api_orders isEmail faults db req) = Created oid \<Longrightarrow>
   orders (stored (post_api_orders isEmail faults db req)) = orders db @
     [\<lparr>o_id = oid,
       o_customer_name = map_option (VARCHAR 100) (customer_name req),
       o_customer_phone = map_option (VARCHAR 20) (customer_phone req),
       o_customer_email = map_option (VARCHAR 100) (customer_email req),
       o_total_amount = map_option (\<lambda>a. DECIMAL_10_2 (sql_number a)) (total_amount req),
       o_status = Pending,
       o_payment_status = PaymentPending,
       o_payment_method = map_option (VARCHAR 50) (payment_method req)\<rparr>] \<and>
   order_items (stored (post_api_orders isEmail faults db req)) =
     order_items db @
     map (\<lambda>item. \<lparr>oi_order_id = oid,
                    oi_menu_item_id = INT_column (sql_number (menu_item_id item)),
                    oi_quantity = INT_column (sql_number (quantity item)),
                    oi_price = DECIMAL_10_2 (sql_number (price item))\<rparr>) (items_of req) \<and>
   length (order_items (stored (post_api_orders isEmail faults db req))) =
     length (order_items db) + length (items_of req) \<and>
   payments (stored (post_api_orders isEmail faults db req)) = payments db @
     [\<lparr>p_order_id = oid,
       p_amount = map_option (\<lambda>a. DECIMAL_10_2 (sql_number a)) (total_amount req),
       p_payment_method = map_option (VARCHAR 50) (payment_method req),
       p_status = PaymentPending\<rparr>]"
proof -
  assume c: "reply (post_api_orders isEmail faults db req) = Created oid"
  note r = created_rows [OF c]
  from r(2) r(3) r(4) show ?thesis
    by (simp add: itemsData_def new_order_def new_payment_def)
qed

theorem successful_placement_rows_witness:
  "reply (post_api_orders sample_isEmail [] sample_db eighth_price_request) = Created 1 \<and>
   order_items (stored (post_api_orders sample_isEmail [] sample_db eighth_price_request)) =
     [\<lparr>oi_order_id = 1, oi_menu_item_id = 1, oi_quantity = 2, oi_price = 13 / 100\<rparr>] \<and>
   payments (stored (post_api_orders sample_isEmail [] sample_db eighth_price_request)) =
     [\<lparr>p_order_id = 1, p_amount = Some (1 / 4), p_payment_method = Some ''cash'',
       p_status = PaymentPending\<rparr>]"
proof -
  have h: "reply (post_api_orders sample_isEmail [] sample_db eighth_price_request) = Created 1"
    by (simp add: handler_eval sample_data)
  from h successful_placement_rows [OF h] show ?thesis
    by (simp add: sample_data items_of_def column_eval sql_number_samples)
qed

text \<open>
  C8, as the claim states it, fails: the reply does not tell which requirement could
  not be met. With flour exhausted and with mozzarella exhausted the sample request
  gets the same reply.
\<close>

theorem insufficient_reply_same_for_all_counterexample:
  "\<not> (reply (post_api_orders sample_isEmail [] low_flour_db sample_request) =
        reply (post_api_orders sample_isEmail [] low_cheese_db sample_request) \<longrightarrow>
      first_exhausted (inventory low_flour_db)
        (required_decrements (menu_inventory_mapping low_flour_db) (items_of sample_request)) =
      first_exhausted (inventory low_cheese_db)
        (required_decrements (menu_inventory_mapping low_cheese_db) (items_of sample_request)))"
  by (simp add: handler_eval decrements_eval sample_data)

text \<open>
  C8, as the code has it. When a valid request fails for insufficient stock, on a
  store that accepts every call, the reply is the 500 error with the fixed message
  \<open>Insufficient inventory\<close>, whichever requirement could not be met.
\<close>

theorem insufficient_inventory_fixed_message:
  "validationResult isEmail req \<Longrightarrow>
   first_exhausted (inventory db)
     (required_decrements (menu_inventory_mapping db) (items_of req)) = Some d \<Longrightarrow>
   reply (post_api_orders isEmail [] db req) = ServerError ''Insufficient inventory''"
proof -
  assume v: "validationResult isEmail req"
    and e: "first_exhausted (inventory db)
     (required_decrements (menu_inventory_mapping db) (items_of req)) = Some d"
  from e have "deduct_in_order (inventory db)
     (required_decrements (menu_inventory_mapping db) (items_of req)) = None"
    using first_exhausted_deduct_in_order [of "inventory db"
        "required_decrements (menu_inventory_mapping db) (items_of req)"]
    by simp
  with v show ?thesis
    by (rule post_api_orders_no_faults_insufficient)
qed

theorem insufficient_inventory_fixed_message_witness:
  "validationResult sample_isEmail sample_request \<and>
   first_exhausted (inventory low_cheese_db)
     (required_decrements (menu_inventory_mapping low_cheese_db) (items_of sample_request))
     = Some (2, 1 / 5) \<and>
   reply (post_api_orders sample_isEmail [] low_cheese_db sample_request)
     = ServerError ''Insufficient inventory''"
proof -
  have v: "validationResult sample_isEmail sample_request"
    by (simp add: handler_eval sample_data)
  have e: "first_exhausted (inventory low_cheese_db)
     (required_decrements (menu_inventory_mapping low_cheese_db) (items_of sample_request))
     = Some (2, 1 / 5)"
    by (simp add: decrements_eval sample_data)
  from v e insufficient_inventory_fixed_message [OF v e] show ?thesis
    by simp
qed

text \<open>
  C9. A request whose \<open>items\<close> is the empty list fails validation: the reply is the
  400 input error, the store receives no call at all, and the tables are as they were.
\<close>

theorem empty_items_rejected:
  "items req = Some [] \<Longrightarrow>
   post_api_orders isEmail faults db req =
     \<lparr>reply = BadRequest ''Invalid value'', stored = db, received = []\<rparr>"
  by (simp add: post_api_orders_def validationResult_def isArray_min1_def)

theorem empty_items_rejected_witness:
  "items (sample_request\<lparr>items := Some []\<rparr>) = Some [] \<and>
   post_api_orders sample_isEmail [] sample_db (sample_request\<lparr>items := Some []\<rparr>) =
     \<lparr>reply = BadRequest ''Invalid value'', stored = sample_db, received = []\<rparr>"
  using empty_items_rejected [of "sample_request\<lparr>items := Some []\<rparr>" sample_isEmail "[]" sample_db]
  by simp

end
